theory Spec2Isabelle
  imports Main
begin

section \<open>The import hooks of pwcp (src/pwcp/hooks.py)\<close>

text \<open>
  The module keeps its state in module-level variables and class attributes, and it
  talks to the Python import system, to \<open>linecache\<close> and to the preprocessor. The
  embedding makes the module's variables the fields of one record that every operation
  takes and returns; an exception is the \<open>Inl\<close> branch of a sum. What the module
  borrows from the host (the native \<open>getlines\<close>, \<open>spec_from_loader\<close>, the search
  inherited from \<open>PathFinder\<close>, the hook built by \<open>FileFinder.path_hook\<close>) is an
  argument of the operation that calls it.
\<close>

subsection \<open>Python values\<close>

text \<open>
  A Python \<open>str\<close> holding text is a list of Unicode code points. File names only serve
  as dictionary keys and are compared for equality, they are kept as \<open>string\<close>.
\<close>

type_synonym pystr = "nat list"
type_synonym path = string

datatype exn =
    AttributeError
  | ImportError
  | FileNotFoundError
  | IndexError
  | TypeError
  | UnicodeEncodeError
  | OtherError string

text \<open>Values of the configuration dictionary and their truth value.\<close>

datatype pyval = PyNone | PyBool bool | PyInt int | PyStr pystr

type_synonym config = "string \<rightharpoonup> pyval"

fun truthy :: "pyval \<Rightarrow> bool" where
  "truthy PyNone = False"
| "truthy (PyBool b) = b"
| "truthy (PyInt i) = (i \<noteq> 0)"
| "truthy (PyStr s) = (s \<noteq> [])"

text \<open>\<open>d.get(k)\<close> in a boolean context: a missing key gives \<open>None\<close>, which is false.\<close>

definition get_truthy :: "config \<Rightarrow> string \<Rightarrow> bool" where
  "get_truthy d k = (case d k of None \<Rightarrow> False | Some v \<Rightarrow> truthy v)"

text \<open>
  \<open>xs[i]\<close>: a negative index counts from the end, an index out of range raises
  \<open>IndexError\<close>.
\<close>

definition py_index :: "'a list \<Rightarrow> int \<Rightarrow> exn + 'a" where
  "py_index xs i =
     (if 0 \<le> i \<and> i < int (length xs) then Inr (xs ! nat i)
      else if i < 0 \<and> - int (length xs) \<le> i then Inr (xs ! nat (i + int (length xs)))
      else Inl IndexError)"

text \<open>
  \<open>str.splitlines()\<close>: a line ends at \<open>\n\<close>, \<open>\r\<close>, \<open>\r\n\<close>, \<open>\v\<close>, \<open>\f\<close>,
  \<open>\x1c\<close>, \<open>\x1d\<close>, \<open>\x1e\<close>, \<open>\x85\<close>, \<open>U+2028\<close> or \<open>U+2029\<close>; the line ends are
  dropped, and a final line end starts no further line.
\<close>

definition is_linebreak :: "nat \<Rightarrow> bool" where
  "is_linebreak c \<longleftrightarrow> c \<in> {10, 11, 12, 13, 28, 29, 30, 133, 8232, 8233}"

definition after_break :: "pystr \<Rightarrow> pystr" where
  "after_break s =
     (case s of
        [] \<Rightarrow> []
      | c # r \<Rightarrow> (if c = 13 then (case r of [] \<Rightarrow> [] | d # r' \<Rightarrow> (if d = 10 then r' else r))
                 else r))"

function splitlines :: "pystr \<Rightarrow> pystr list" where
  "splitlines s =
     (if s = [] then []
      else (let line = takeWhile (\<lambda>c. \<not> is_linebreak c) s;
                rest = dropWhile (\<lambda>c. \<not> is_linebreak c) s
            in if rest = [] then [line] else line # splitlines (after_break rest)))"
  by pat_completeness auto

lemma length_after_break: "s \<noteq> [] \<Longrightarrow> length (after_break s) < length s"
  by (auto simp: after_break_def split: list.splits)

termination splitlines
proof (relation "measure length")
  show "wf (measure (length :: pystr \<Rightarrow> nat))" by simp
next
  fix s :: pystr and line rest
  assume r: "rest = dropWhile (\<lambda>c. \<not> is_linebreak c) s" and ne: "rest \<noteq> []"
  have "length (after_break rest) < length rest"
    using ne by (rule length_after_break)
  also have "length rest \<le> length s"
    unfolding r by (rule length_dropWhile_le)
  finally show "(after_break rest, s) \<in> measure length" by simp
qed

declare splitlines.simps [simp del]

text \<open>
  \<open>str.encode()\<close>: UTF-8. The lone surrogates \<open>U+D800\<close> to \<open>U+DFFF\<close> have no
  encoding and raise \<open>UnicodeEncodeError\<close>. Bytes are numbers below 256.
\<close>

definition utf8 :: "nat \<Rightarrow> exn + nat list" where
  "utf8 c =
     (if c < 0x80 then Inr [c]
      else if c < 0x800 then Inr [0xC0 + c div 64, 0x80 + c mod 64]
      else if c < 0x10000 then
        (if 0xD800 \<le> c \<and> c \<le> 0xDFFF then Inl UnicodeEncodeError
         else Inr [0xE0 + c div 4096, 0x80 + (c div 64) mod 64, 0x80 + c mod 64])
      else Inr [0xF0 + c div 262144, 0x80 + (c div 4096) mod 64,
                0x80 + (c div 64) mod 64, 0x80 + c mod 64])"

fun encode :: "pystr \<Rightarrow> exn + nat list" where
  "encode [] = Inr []"
| "encode (c # cs) =
     (case utf8 c of
        Inl e \<Rightarrow> Inl e
      | Inr b \<Rightarrow> (case encode cs of Inl e \<Rightarrow> Inl e | Inr bs \<Rightarrow> Inr (b @ bs)))"

subsection \<open>Objects of the import system\<close>

text \<open>
  A module object, as far as the module looks at it: its \<open>__file__\<close> attribute, which
  may be missing, \<open>None\<close> or a file name.
\<close>

datatype file_attr = FileMissing | FileNone | FilePath path

record py_module =
  mod_name :: string
  mod_file :: file_attr

text \<open>A \<open>PPyLoader\<close> instance: the two attributes set by \<open>__init__\<close>.\<close>

record ppy_loader =
  fullname :: string
  lpath :: path

datatype loader = PPyLoader ppy_loader | ForeignLoader string

text \<open>A module spec: the loader may be \<open>None\<close>.\<close>

record module_spec =
  spec_name :: string
  spec_loader :: "loader option"
  spec_origin :: "path option"

text \<open>
  A resolver of \<open>sys.meta_path\<close> other than \<open>PPyPathFinder\<close>. Either interface may be
  missing (\<open>None\<close>: reading the attribute raises \<open>AttributeError\<close>); a call returns a
  spec (a loader), \<open>None\<close>, or raises.
\<close>

record foreign_finder =
  ff_name :: string
  ff_find_spec ::
    "(string \<Rightarrow> path list option \<Rightarrow> py_module option \<Rightarrow> exn + module_spec option) option"
  ff_find_module :: "(string \<Rightarrow> path list option \<Rightarrow> exn + loader option) option"

datatype meta_finder = PPyPathFinder | Foreign foreign_finder

text \<open>
  A directory resolver as a path hook returns it. \<open>FileFinder.invalidate_caches\<close> sets
  \<open>_path_mtime\<close> to \<open>-1\<close>; \<open>df_has_invalidate\<close> says whether the object has an
  \<open>invalidate_caches\<close> attribute at all.
\<close>

record dir_finder =
  df_path :: path
  df_has_invalidate :: bool
  df_path_mtime :: int

type_synonym hook = "path \<Rightarrow> exn + dir_finder"

subsection \<open>The state\<close>

text \<open>
  The module's variables: \<open>_path_importer_cache\<close> (a cached \<open>None\<close> is \<open>Some None\<close>),
  \<open>_path_hooks\<close>, \<open>preprocessed_files\<close>, the \<open>_config\<close> attribute of the two
  classes, the \<open>done\<close> flag of \<open>_install\<close>; and the host's variables it writes:
  \<open>sys.meta_path\<close>, \<open>sys.path_importer_cache\<close>, \<open>linecache.getlines\<close> (patched or
  not). \<open>cwd\<close> is what \<open>os.getcwd()\<close> gives at this moment and \<open>files\<close> the
  content of the files on disk.
\<close>

record state =
  path_importer_cache :: "path \<rightharpoonup> dir_finder option"
  path_hooks :: "hook list"
  preprocessed_files :: "path \<rightharpoonup> pystr"
  loader_config :: config
  finder_config :: config
  install_done :: bool
  meta_path :: "meta_finder list"
  sys_path_importer_cache :: "path \<rightharpoonup> dir_finder option"
  getlines_patched :: bool
  cwd :: "exn + path"
  files :: "path \<rightharpoonup> pystr"

subsection \<open>patched_getlines\<close>

text \<open>
  \<open>getlines\<close> is the host's \<open>linecache.getlines\<close>, \<open>'g\<close> the type of the
  \<open>module_globals\<close> argument.
\<close>

definition patched_getlines ::
  "(path \<Rightarrow> 'g option \<Rightarrow> pystr list) \<Rightarrow> state \<Rightarrow> path \<Rightarrow> 'g option \<Rightarrow> pystr list" where
  "patched_getlines getlines s filename module_globals =
     (case preprocessed_files s filename of
        Some data \<Rightarrow> splitlines data
      | None \<Rightarrow> getlines filename module_globals)"

subsection \<open>PPyLoader.get_data\<close>

text \<open>
  \<open>preprocess\<close> is the preprocessor, called with the loader's path and the configuration;
  it sees the files on disk. The \<open>filename\<close> argument is not used. The right-hand side
  of the double assignment is evaluated first, so a preprocessor that raises leaves
  \<open>preprocessed_files\<close> alone; \<open>encode\<close> runs after the assignment.
\<close>

definition get_data ::
  "(path \<Rightarrow> config \<Rightarrow> (path \<rightharpoonup> pystr) \<Rightarrow> exn + pystr) \<Rightarrow> ppy_loader \<Rightarrow> path \<Rightarrow> state
     \<Rightarrow> (exn + nat list) \<times> state" where
  "get_data preprocess self filename s =
     (case preprocess (lpath self) (loader_config s) (files s) of
        Inl e \<Rightarrow> (Inl e, s)
      | Inr data \<Rightarrow>
          (encode data,
           s\<lparr>preprocessed_files := (preprocessed_files s)(lpath self \<mapsto> data)\<rparr>))"

text \<open>
  Modelled from the spec: the preprocessor (\<open>pwcp/preprocessor.py\<close>) is not part of the
  sources at hand. The spec describes it as a pure function from the raw text and the
  configuration to the rewritten text, and the loader calls it with the file's path: it
  reads the file at that path and rewrites its content with \<open>rewrite\<close>. A missing file
  raises \<open>FileNotFoundError\<close>.
\<close>

definition preprocess ::
  "(pystr \<Rightarrow> config \<Rightarrow> exn + pystr) \<Rightarrow> path \<Rightarrow> config \<Rightarrow> (path \<rightharpoonup> pystr) \<Rightarrow> exn + pystr" where
  "preprocess rewrite p cfg fs =
     (case fs p of None \<Rightarrow> Inl FileNotFoundError | Some raw \<Rightarrow> rewrite raw cfg)"

subsection \<open>find_spec_fallback\<close>

text \<open>
  What the \<open>try\<close> statement of one iteration leaves in \<open>spec\<close>. Only
  \<open>AttributeError\<close> is caught, whether the \<open>find_spec\<close> attribute is missing or the
  call raises it; then \<open>find_module\<close> is called outside any handler, and when it gives
  no loader \<open>spec\<close> keeps the value of the iteration before. \<open>sfl\<close> is the host's
  \<open>spec_from_loader\<close>.
\<close>

definition query_finder ::
  "(string \<Rightarrow> loader \<Rightarrow> exn + module_spec option) \<Rightarrow> foreign_finder \<Rightarrow> module_spec option
     \<Rightarrow> string \<Rightarrow> path list option \<Rightarrow> py_module option \<Rightarrow> exn + module_spec option" where
  "query_finder sfl finder spec name search target =
     (case (case ff_find_spec finder of
              None \<Rightarrow> Inl AttributeError
            | Some meth \<Rightarrow> meth name search target) of
        Inr r \<Rightarrow> Inr r
      | Inl e \<Rightarrow>
          (if e = AttributeError then
             (case (case ff_find_module finder of
                      None \<Rightarrow> Inl AttributeError
                    | Some meth \<Rightarrow> meth name search) of
                Inl e' \<Rightarrow> Inl e'
              | Inr None \<Rightarrow> Inr spec
              | Inr (Some ld) \<Rightarrow> sfl name ld)
           else Inl e))"

text \<open>\<open>spec and spec.loader\<close>: spec and loader objects are true, \<open>None\<close> is false.\<close>

definition usable :: "module_spec option \<Rightarrow> bool" where
  "usable spec = (case spec of None \<Rightarrow> False | Some sp \<Rightarrow> spec_loader sp \<noteq> None)"

fun fallback_loop ::
  "(string \<Rightarrow> loader \<Rightarrow> exn + module_spec option) \<Rightarrow> meta_finder list \<Rightarrow> module_spec option
     \<Rightarrow> string \<Rightarrow> path list option \<Rightarrow> py_module option \<Rightarrow> exn + module_spec option" where
  "fallback_loop sfl [] spec name search target = Inr None"
| "fallback_loop sfl (PPyPathFinder # finders) spec name search target =
     fallback_loop sfl finders spec name search target"
| "fallback_loop sfl (Foreign finder # finders) spec name search target =
     (case query_finder sfl finder spec name search target of
        Inl e \<Rightarrow> Inl e
      | Inr spec' \<Rightarrow>
          (if usable spec' then Inr spec'
           else fallback_loop sfl finders spec' name search target))"

definition find_spec_fallback ::
  "(string \<Rightarrow> loader \<Rightarrow> exn + module_spec option) \<Rightarrow> state
     \<Rightarrow> string \<Rightarrow> path list option \<Rightarrow> py_module option \<Rightarrow> exn + module_spec option" where
  "find_spec_fallback sfl s name search target =
     fallback_loop sfl (meta_path s) None name search target"

subsection \<open>PPyPathFinder\<close>

text \<open>
  \<open>invalidate_caches\<close> visits the values of \<open>_path_importer_cache\<close> and calls
  \<open>invalidate_caches\<close> on those that have it; a cached \<open>None\<close> has not.
\<close>

definition invalidate_finder :: "dir_finder option \<Rightarrow> dir_finder option" where
  "invalidate_finder v =
     (case v of
        None \<Rightarrow> None
      | Some f \<Rightarrow> (if df_has_invalidate f then Some (f\<lparr>df_path_mtime := - 1\<rparr>) else Some f))"

definition invalidate_caches :: "state \<Rightarrow> state" where
  "invalidate_caches s =
     s\<lparr>path_importer_cache := (\<lambda>p. map_option invalidate_finder (path_importer_cache s p))\<rparr>"

text \<open>The class method \<open>_path_hooks\<close>: the first hook that does not raise \<open>ImportError\<close>.\<close>

fun cls_path_hooks :: "hook list \<Rightarrow> path \<Rightarrow> exn + dir_finder option" where
  "cls_path_hooks [] p = Inr None"
| "cls_path_hooks (h # hs) p =
     (case h p of
        Inr finder \<Rightarrow> Inr (Some finder)
      | Inl e \<Rightarrow> (if e = ImportError then cls_path_hooks hs p else Inl e))"

text \<open>The class method \<open>_path_importer_cache\<close>.\<close>

definition cls_path_importer_cache ::
  "path \<Rightarrow> state \<Rightarrow> (exn + dir_finder option) \<times> state" where
  "cls_path_importer_cache p s =
     (case (if p = [] then
              (case cwd s of
                 Inr d \<Rightarrow> Inr (Some d)
               | Inl e \<Rightarrow> (if e = FileNotFoundError then Inr None else Inl e))
            else Inr (Some p)) of
        Inl e \<Rightarrow> (Inl e, s)
      | Inr None \<Rightarrow> (Inr None, s)
      | Inr (Some q) \<Rightarrow>
          (case path_importer_cache s q of
             Some finder \<Rightarrow> (Inr finder, s)
           | None \<Rightarrow>
               (case cls_path_hooks (path_hooks s) q of
                  Inl e \<Rightarrow> (Inl e, s)
                | Inr finder \<Rightarrow>
                    (Inr finder,
                     s\<lparr>path_importer_cache := (path_importer_cache s)(q \<mapsto> finder)\<rparr>))))"

text \<open>
  \<open>find_spec\<close>. \<open>super\<close> is the inherited \<open>PathFinder.find_spec\<close>, host code that
  searches the path entries through \<open>_path_importer_cache\<close> and so may change the state.
\<close>

definition find_spec ::
  "(string \<Rightarrow> loader \<Rightarrow> exn + module_spec option)
     \<Rightarrow> (string \<Rightarrow> path list option \<Rightarrow> py_module option \<Rightarrow> state
          \<Rightarrow> (exn + module_spec option) \<times> state)
     \<Rightarrow> string \<Rightarrow> path list option \<Rightarrow> py_module option \<Rightarrow> state
     \<Rightarrow> (exn + module_spec option) \<times> state" where
  "find_spec sfl super name search target s =
     (case (if get_truthy (finder_config s) ''prefer_python''
            then find_spec_fallback sfl s name search target
            else Inr None) of
        Inl e \<Rightarrow> (Inl e, s)
      | Inr (Some spec) \<Rightarrow> (Inr (Some spec), s)
      | Inr None \<Rightarrow>
          (case super name search target s of
             (Inl e, s') \<Rightarrow> (Inl e, s')
           | (Inr spec, s') \<Rightarrow> (Inr (if usable spec then spec else None), s')))"

subsection \<open>The exception handler\<close>

text \<open>A traceback is the list of its entries, outermost first; \<open>None\<close> is the empty list.\<close>

record frame =
  co_filename :: path
  tb_lineno :: int

record syntax_error =
  se_msg :: string
  se_filename :: "path option"
  se_lineno :: "int option"
  se_text :: "pystr option"

datatype exc_value = SyntaxError syntax_error | OtherException string

text \<open>
  The first statement of \<open>handle_exc\<close>. \<open>preprocessed_files.get(e.filename)\<close> is
  tested for truth, so an empty text counts as no entry.
\<close>

definition replace_text :: "state \<Rightarrow> exc_value \<Rightarrow> exn + exc_value" where
  "replace_text s e =
     (case e of
        OtherException x \<Rightarrow> Inr e
      | SyntaxError se \<Rightarrow>
          (case se_filename se of
             None \<Rightarrow> Inr e
           | Some fn \<Rightarrow>
               (case preprocessed_files s fn of
                  None \<Rightarrow> Inr e
                | Some data \<Rightarrow>
                    (if data = [] then Inr e
                     else (case se_lineno se of
                             None \<Rightarrow> Inl TypeError
                           | Some n \<Rightarrow>
                               (case py_index (splitlines data) (n - 1) of
                                  Inl x \<Rightarrow> Inl x
                                | Inr line \<Rightarrow> Inr (SyntaxError (se\<lparr>se_text := Some line\<rparr>))))))))"

text \<open>The \<open>while\<close> loop of \<open>handle_exc\<close>.\<close>

fun drop_outer :: "py_module option \<Rightarrow> frame list \<Rightarrow> exn + frame list" where
  "drop_outer m [] = Inr []"
| "drop_outer None (f # tb) = Inr (f # tb)"
| "drop_outer (Some m) (f # tb) =
     (case mod_file m of
        FileMissing \<Rightarrow> Inl AttributeError
      | FileNone \<Rightarrow> drop_outer (Some m) tb
      | FilePath p \<Rightarrow> (if co_filename f \<noteq> p then drop_outer (Some m) tb else Inr (f # tb)))"

text \<open>
  \<open>handle_exc\<close> of \<open>create_exception_handler(module)\<close>: the result is what
  \<open>print_exception\<close> is called with.
\<close>

definition handle_exc ::
  "py_module option \<Rightarrow> state \<Rightarrow> string \<Rightarrow> exc_value \<Rightarrow> frame list
     \<Rightarrow> exn + (string \<times> exc_value \<times> frame list)" where
  "handle_exc m s e_type e tb =
     (case replace_text s e of
        Inl x \<Rightarrow> Inl x
      | Inr e' \<Rightarrow>
          (case drop_outer m tb of
             Inl x \<Rightarrow> Inl x
           | Inr tb' \<Rightarrow> Inr (e_type, e', tb')))"

subsection \<open>install\<close>

text \<open>
  The host's \<open>importlib.invalidate_caches()\<close> calls \<open>invalidate_caches\<close> on every
  resolver of \<open>sys.meta_path\<close> that has it. The caches of the other resolvers are not
  part of the state, and their \<open>invalidate_caches\<close> is taken to return.
\<close>

fun importlib_invalidate_caches :: "meta_finder list \<Rightarrow> state \<Rightarrow> state" where
  "importlib_invalidate_caches [] s = s"
| "importlib_invalidate_caches (PPyPathFinder # finders) s =
     importlib_invalidate_caches finders (invalidate_caches s)"
| "importlib_invalidate_caches (Foreign f # finders) s = importlib_invalidate_caches finders s"

text \<open>\<open>file_hook\<close> is the host's \<open>FileFinder.path_hook(LOADER_DETAILS)\<close>.\<close>

definition install :: "hook \<Rightarrow> config \<Rightarrow> state \<Rightarrow> state" where
  "install file_hook config s =
     (let s1 = s\<lparr>loader_config := config, finder_config := config\<rparr>
      in if install_done s1 then s1
         else (let s2 = s1\<lparr>meta_path := PPyPathFinder # meta_path s1\<rparr>;
                   s3 = s2\<lparr>path_hooks := path_hooks s2 @ [file_hook]\<rparr>;
                   s4 = s3\<lparr>sys_path_importer_cache := Map.empty\<rparr>;
                   s5 = importlib_invalidate_caches (meta_path s4) s4;
                   s6 = s5\<lparr>getlines_patched := True\<rparr>
               in s6\<lparr>install_done := True\<rparr>))"

fun install_all :: "hook \<Rightarrow> config list \<Rightarrow> state \<Rightarrow> state" where
  "install_all file_hook [] s = s"
| "install_all file_hook (c # cs) s = install_all file_hook cs (install file_hook c s)"

text \<open>The state when the module has just been imported.\<close>

definition initial_state ::
  "meta_finder list \<Rightarrow> (path \<rightharpoonup> dir_finder option) \<Rightarrow> exn + path \<Rightarrow> (path \<rightharpoonup> pystr) \<Rightarrow> state" where
  "initial_state finders spic d fs =
     \<lparr>path_importer_cache = Map.empty, path_hooks = [], preprocessed_files = Map.empty,
      loader_config = Map.empty, finder_config = Map.empty, install_done = False,
      meta_path = finders, sys_path_importer_cache = spic, getlines_patched = False,
      cwd = d, files = fs\<rparr>"

subsection \<open>Runs of the module\<close>

text \<open>
  What can happen to the state during the life of the process: the operations of the
  module, and the changes of the outside it reads (a file written or removed, the
  working directory changed or lost). \<open>find_spec\<close> changes the state only through the
  lookups of \<open>_path_importer_cache\<close> that the inherited search makes; asking for the
  lines of a file and handling an exception change nothing.
\<close>

datatype event =
    Install config
  | GetData ppy_loader path
  | GetLines path
  | HandleExc "py_module option" exc_value "frame list"
  | InvalidateCaches
  | PathImporterCache path
  | WriteFile path pystr
  | RemoveFile path
  | Chdir "exn + path"

fun step ::
  "(path \<Rightarrow> config \<Rightarrow> (path \<rightharpoonup> pystr) \<Rightarrow> exn + pystr) \<Rightarrow> hook \<Rightarrow> event \<Rightarrow> state \<Rightarrow> state" where
  "step pp h (Install c) s = install h c s"
| "step pp h (GetData self filename) s = snd (get_data pp self filename s)"
| "step pp h (GetLines filename) s = s"
| "step pp h (HandleExc m e tb) s = s"
| "step pp h InvalidateCaches s = invalidate_caches s"
| "step pp h (PathImporterCache p) s = snd (cls_path_importer_cache p s)"
| "step pp h (WriteFile p t) s = s\<lparr>files := (files s)(p \<mapsto> t)\<rparr>"
| "step pp h (RemoveFile p) s = s\<lparr>files := (files s)(p := None)\<rparr>"
| "step pp h (Chdir d) s = s\<lparr>cwd := d\<rparr>"

fun run ::
  "(path \<Rightarrow> config \<Rightarrow> (path \<rightharpoonup> pystr) \<Rightarrow> exn + pystr) \<Rightarrow> hook \<Rightarrow> event list \<Rightarrow> state \<Rightarrow> state" where
  "run pp h [] s = s"
| "run pp h (ev # evs) s = run pp h evs (step pp h ev s)"

text \<open>The paths for which a call of \<open>get_data\<close> in the run got a text from the preprocessor.\<close>

fun preprocessed_now ::
  "(path \<Rightarrow> config \<Rightarrow> (path \<rightharpoonup> pystr) \<Rightarrow> exn + pystr) \<Rightarrow> event \<Rightarrow> state \<Rightarrow> path set" where
  "preprocessed_now pp (GetData self filename) s =
     (case pp (lpath self) (loader_config s) (files s) of Inl e \<Rightarrow> {} | Inr data \<Rightarrow> {lpath self})"
| "preprocessed_now pp ev s = {}"

fun preprocessed_paths ::
  "(path \<Rightarrow> config \<Rightarrow> (path \<rightharpoonup> pystr) \<Rightarrow> exn + pystr) \<Rightarrow> hook \<Rightarrow> event list \<Rightarrow> state
     \<Rightarrow> path set" where
  "preprocessed_paths pp h [] s = {}"
| "preprocessed_paths pp h (ev # evs) s =
     preprocessed_now pp ev s \<union> preprocessed_paths pp h evs (step pp h ev s)"

text \<open>The paths a loader was asked to load, and the paths whose lines were asked for.\<close>

fun loaded_paths :: "event list \<Rightarrow> path set" where
  "loaded_paths [] = {}"
| "loaded_paths (GetData self filename # evs) = insert (lpath self) (loaded_paths evs)"
| "loaded_paths (ev # evs) = loaded_paths evs"

fun requested_paths :: "event list \<Rightarrow> path set" where
  "requested_paths [] = {}"
| "requested_paths (GetLines filename # evs) = insert filename (requested_paths evs)"
| "requested_paths (ev # evs) = requested_paths evs"

text \<open>Two cached values are the same resolver when they differ at most in \<open>_path_mtime\<close>.\<close>

definition same_resolver :: "dir_finder option \<Rightarrow> dir_finder option \<Rightarrow> bool" where
  "same_resolver r r' \<longleftrightarrow>
     map_option (\<lambda>f. f\<lparr>df_path_mtime := 0\<rparr>) r = map_option (\<lambda>f. f\<lparr>df_path_mtime := 0\<rparr>) r'"

text \<open>
  The fallback search in the words of the spec: the chain without \<open>PPyPathFinder\<close>,
  and the first answer that is a spec with a loader, an exception on the way ending the
  search.
\<close>

fun chain_without_self :: "meta_finder list \<Rightarrow> foreign_finder list" where
  "chain_without_self [] = []"
| "chain_without_self (PPyPathFinder # finders) = chain_without_self finders"
| "chain_without_self (Foreign f # finders) = f # chain_without_self finders"

fun first_usable :: "(exn + module_spec option) list \<Rightarrow> exn + module_spec option" where
  "first_usable [] = Inr None"
| "first_usable (Inl e # answers) = Inl e"
| "first_usable (Inr r # answers) = (if usable r then Inr r else first_usable answers)"

text \<open>Every cached resolver of the first state is still cached in the second.\<close>

definition kept :: "state \<Rightarrow> state \<Rightarrow> bool" where
  "kept s s' \<longleftrightarrow>
     (\<forall>p r. path_importer_cache s p = Some r \<longrightarrow>
        (\<exists>r'. path_importer_cache s' p = Some r' \<and> same_resolver r r'))"

subsection \<open>Concrete states\<close>

text \<open>
  A process in \<open>/home\<close> whose file \<open>/home/m.ppy\<close> holds \<open>a\nb\<close> and has been
  preprocessed to \<open>x\ny\n\<close>.
\<close>

definition example_state :: state where
  "example_state =
     (initial_state [] Map.empty (Inr ''/home'') [''/home/m.ppy'' \<mapsto> [97, 10, 98]])
       \<lparr>preprocessed_files := [''/home/m.ppy'' \<mapsto> [120, 10, 121, 10]]\<rparr>"

text \<open>A rewrite that puts ASCII letters in upper case, a loader, a module, an error, a traceback.\<close>

definition upper :: "pystr \<Rightarrow> config \<Rightarrow> exn + pystr" where
  "upper raw cfg = Inr (map (\<lambda>c. if 97 \<le> c \<and> c \<le> 122 then c - 32 else c) raw)"

definition main_module :: py_module where
  "main_module = \<lparr>mod_name = ''__main__'', mod_file = FilePath ''/home/main.ppy''\<rparr>"


definition example_tb :: "frame list" where
  "example_tb =
     [\<lparr>co_filename = ''/usr/lib/python3/runpy.py'', tb_lineno = 87\<rparr>,
      \<lparr>co_filename = ''/home/main.ppy'', tb_lineno = 3\<rparr>,
      \<lparr>co_filename = ''/home/m.ppy'', tb_lineno = 1\<rparr>]"

definition m_loader :: ppy_loader where
  "m_loader = \<lparr>fullname = ''m'', lpath = ''/home/m.ppy''\<rparr>"

text \<open>A directory resolver, a hook that takes every directory below \<open>/home\<close>, a cache.\<close>

definition home_finder :: dir_finder where
  "home_finder = \<lparr>df_path = ''/home'', df_has_invalidate = True, df_path_mtime = 1700\<rparr>"

definition home_hook :: hook where
  "home_hook p =
     (if take 5 p = ''/home''
      then Inr \<lparr>df_path = p, df_has_invalidate = True, df_path_mtime = 1700\<rparr>
      else Inl ImportError)"

definition cached_state :: state where
  "cached_state =
     example_state\<lparr>path_importer_cache := [''/home'' \<mapsto> Some home_finder, ''/tmp'' \<mapsto> None],
                   path_hooks := [home_hook]\<rparr>"

text \<open>
  Two resolvers of the host, one with the modern interface that knows \<open>sys\<close>, one with
  only the legacy interface that knows \<open>old\<close>; an adapter that wraps a loader into a
  spec; the state of a fresh process with these resolvers; two configurations.
\<close>

definition builtin_finder :: foreign_finder where
  "builtin_finder =
     \<lparr>ff_name = ''BuiltinImporter'',
      ff_find_spec = Some (\<lambda>name search target.
        Inr (if name = ''sys''
             then Some \<lparr>spec_name = name, spec_loader = Some (ForeignLoader ''builtin''),
                        spec_origin = None\<rparr>
             else None)),
      ff_find_module = None\<rparr>"

definition legacy_finder :: foreign_finder where
  "legacy_finder =
     \<lparr>ff_name = ''LegacyImporter'',
      ff_find_spec = None,
      ff_find_module = Some (\<lambda>name search.
        Inr (if name = ''old'' then Some (ForeignLoader ''legacy'') else None))\<rparr>"

definition wrap_loader :: "string \<Rightarrow> loader \<Rightarrow> exn + module_spec option" where
  "wrap_loader name ld = Inr (Some \<lparr>spec_name = name, spec_loader = Some ld, spec_origin = None\<rparr>)"

definition fresh_state :: state where
  "fresh_state =
     initial_state [Foreign builtin_finder, Foreign legacy_finder] Map.empty (Inr ''/home'')
       [''/home/m.ppy'' \<mapsto> [97, 10, 98]]"

definition plain_config :: config where
  "plain_config = [''prefer_python'' \<mapsto> PyBool False]"

definition python_first_config :: config where
  "python_first_config = [''prefer_python'' \<mapsto> PyBool True]"

text \<open>The fresh process after \<open>install\<close> with \<open>prefer_python\<close> set.\<close>

definition wired_state :: state where
  "wired_state = install home_hook python_first_config fresh_state"

section \<open>Properties\<close>

subsection \<open>Line splitting\<close>

lemma splitlines_Nil [simp]: "splitlines [] = []"
  by (simp add: splitlines.simps)


lemma splitlines_last_line:
  "s \<noteq> [] \<Longrightarrow> dropWhile (\<lambda>c. \<not> is_linebreak c) s = [] \<Longrightarrow> splitlines s = [s]"
  by (subst splitlines.simps) (simp add: Let_def takeWhile_eq_all_conv)

lemma splitlines_next_line:
  "dropWhile (\<lambda>c. \<not> is_linebreak c) s \<noteq> [] \<Longrightarrow>
   splitlines s = takeWhile (\<lambda>c. \<not> is_linebreak c) s
                    # splitlines (after_break (dropWhile (\<lambda>c. \<not> is_linebreak c) s))"
  by (subst splitlines.simps) (auto simp: Let_def)

lemmas splitlines_eval =
  splitlines_last_line splitlines_next_line is_linebreak_def after_break_def

text \<open>No line of the result holds a line end.\<close>

lemma splitlines_no_linebreak:
  "line \<in> set (splitlines s) \<Longrightarrow> c \<in> set line \<Longrightarrow> \<not> is_linebreak c"
proof (induction s arbitrary: line rule: splitlines.induct)
  case (1 s)
  let ?l = "takeWhile (\<lambda>c. \<not> is_linebreak c) s"
  let ?r = "dropWhile (\<lambda>c. \<not> is_linebreak c) s"
  show ?case
  proof (cases "?r = []")
    case True
    with 1(2) have "s \<noteq> []" by auto
    with True 1(2) have "line = s" by (simp add: splitlines_last_line)
    moreover from True have "\<forall>x\<in>set s. \<not> is_linebreak x" by (simp add: dropWhile_eq_Nil_conv)
    ultimately show ?thesis using 1(3) by blast
  next
    case False
    then have ne: "s \<noteq> []" by auto
    from 1(2) False have "line = ?l \<or> line \<in> set (splitlines (after_break ?r))"
      by (simp add: splitlines_next_line)
    then show ?thesis
    proof
      assume "line = ?l"
      with 1(3) show ?thesis by (auto dest: set_takeWhileD)
    next
      assume "line \<in> set (splitlines (after_break ?r))"
      from 1(1)[OF ne refl refl False this 1(3)] show ?thesis .
    qed
  qed
qed

subsection \<open>The line lookup\<close>

text \<open>
  C4. For every file name and every \<open>module_globals\<close>: when \<open>preprocessed_files\<close> has
  an entry for the file name, \<open>patched_getlines\<close> returns that entry split into lines;
  otherwise it returns what the host's \<open>getlines\<close> returns for the same arguments.
\<close>

theorem patched_getlines_cached_or_native:
  "(preprocessed_files s filename = Some data \<longrightarrow>
      patched_getlines getlines s filename g = splitlines data) \<and>
   (preprocessed_files s filename = None \<longrightarrow>
      patched_getlines getlines s filename g = getlines filename g)"
  by (simp add: patched_getlines_def)

theorem patched_getlines_witness:
  "preprocessed_files example_state ''/home/m.ppy'' = Some [120, 10, 121, 10] \<and>
   patched_getlines (\<lambda>f g. [[122]]) example_state ''/home/m.ppy'' (None :: unit option)
     = [[120], [121]] \<and>
   preprocessed_files example_state ''/home/n.py'' = None \<and>
   patched_getlines (\<lambda>f g. [[122]]) example_state ''/home/n.py'' (None :: unit option)
     = [[122]]"
  using patched_getlines_cached_or_native
          [of example_state "''/home/m.ppy''" "[120, 10, 121, 10]" "\<lambda>f g. [[122]]" None]
        patched_getlines_cached_or_native
          [of example_state "''/home/n.py''" "[]" "\<lambda>f g. [[122]]" None]
  by (simp add: example_state_def initial_state_def splitlines_eval)

subsection \<open>The loader\<close>

text \<open>
  C10. When the preprocessor raises during \<open>get_data\<close>, the exception reaches the
  caller and the state is the one before the call: the entry of \<open>preprocessed_files\<close>
  for the loader's path is neither created, overwritten nor removed.
\<close>

theorem get_data_preprocessor_raises:
  "pp (lpath self) (loader_config s) (files s) = Inl e \<Longrightarrow>
   get_data pp self filename s = (Inl e, s)"
  by (simp add: get_data_def)

theorem get_data_preprocessor_raises_witness:
  "preprocess (\<lambda>raw cfg. Inl (OtherError ''bad directive''))
     (lpath \<lparr>fullname = ''m'', lpath = ''/home/m.ppy''\<rparr>)
     (loader_config example_state) (files example_state) = Inl (OtherError ''bad directive'') \<and>
   get_data (preprocess (\<lambda>raw cfg. Inl (OtherError ''bad directive'')))
     \<lparr>fullname = ''m'', lpath = ''/home/m.ppy''\<rparr> ''/home/m.ppy'' example_state
     = (Inl (OtherError ''bad directive''), example_state) \<and>
   preprocessed_files example_state ''/home/m.ppy'' = Some [120, 10, 121, 10]"
proof -
  have h: "preprocess (\<lambda>raw cfg. Inl (OtherError ''bad directive''))
             (lpath \<lparr>fullname = ''m'', lpath = ''/home/m.ppy''\<rparr>)
             (loader_config example_state) (files example_state)
           = Inl (OtherError ''bad directive'')"
    by (simp add: preprocess_def example_state_def initial_state_def)
  from get_data_preprocessor_raises
         [where pp = "preprocess (\<lambda>raw cfg. Inl (OtherError ''bad directive''))"
            and self = "\<lparr>fullname = ''m'', lpath = ''/home/m.ppy''\<rparr>"
            and s = example_state and filename = "''/home/m.ppy''", OF h]
  have "get_data (preprocess (\<lambda>raw cfg. Inl (OtherError ''bad directive'')))
          \<lparr>fullname = ''m'', lpath = ''/home/m.ppy''\<rparr> ''/home/m.ppy'' example_state
        = (Inl (OtherError ''bad directive''), example_state)" .
  with h show ?thesis
    by (simp add: example_state_def initial_state_def)
qed

text \<open>
  C2. Every call of \<open>get_data\<close> for a loader bound to path \<open>P\<close> has the preprocessor
  read the present content of \<open>P\<close> and rewrite it under the loader's configuration,
  stores the result in \<open>preprocessed_files\<close> under \<open>P\<close> over any earlier entry, and
  returns it, encoded. Loading \<open>P\<close>, changing the file and loading \<open>P\<close> again leaves
  the entry made from the second content.
\<close>

theorem get_data_caches_current_content:
  "files s (lpath self) = Some raw \<and> rewrite raw (loader_config s) = Inr data \<longrightarrow>
     get_data (preprocess rewrite) self filename s
       = (encode data, s\<lparr>preprocessed_files := (preprocessed_files s)(lpath self \<mapsto> data)\<rparr>) \<and>
     (\<forall>raw' data' filename'. rewrite raw' (loader_config s) = Inr data' \<longrightarrow>
        get_data (preprocess rewrite) self filename'
          ((snd (get_data (preprocess rewrite) self filename s))
             \<lparr>files := (files s)(lpath self \<mapsto> raw')\<rparr>)
        = (encode data',
           s\<lparr>preprocessed_files := (preprocessed_files s)(lpath self \<mapsto> data'),
             files := (files s)(lpath self \<mapsto> raw')\<rparr>))"
  by (simp add: get_data_def preprocess_def)

theorem get_data_witness:
  "files example_state (lpath m_loader) = Some [97, 10, 98] \<and>
   upper [97, 10, 98] (loader_config example_state) = Inr [65, 10, 66] \<and>
   fst (get_data (preprocess upper) m_loader ''/home/m.ppy'' example_state) = Inr [65, 10, 66] \<and>
   preprocessed_files (snd (get_data (preprocess upper) m_loader ''/home/m.ppy'' example_state))
     ''/home/m.ppy'' = Some [65, 10, 66] \<and>
   upper [99] (loader_config example_state) = Inr [67] \<and>
   preprocessed_files
     (snd (get_data (preprocess upper) m_loader ''/home/m.ppy''
        ((snd (get_data (preprocess upper) m_loader ''/home/m.ppy'' example_state))
           \<lparr>files := (files example_state)(''/home/m.ppy'' \<mapsto> [99])\<rparr>)))
     ''/home/m.ppy'' = Some [67]"
proof -
  have f: "files example_state (lpath m_loader) = Some [97, 10, 98]"
    by (simp add: example_state_def initial_state_def m_loader_def)
  have u: "upper [97, 10, 98] (loader_config example_state) = Inr [65, 10, 66]"
    by (simp add: upper_def)
  have u': "upper [99] (loader_config example_state) = Inr [67]"
    by (simp add: upper_def)
  have p: "lpath m_loader = ''/home/m.ppy''" by (simp add: m_loader_def)
  from get_data_caches_current_content
         [of example_state m_loader "[97, 10, 98]" upper "[65, 10, 66]" "''/home/m.ppy''"] f u
  have a: "get_data (preprocess upper) m_loader ''/home/m.ppy'' example_state
       = (encode [65, 10, 66], example_state\<lparr>preprocessed_files := (preprocessed_files example_state)(lpath m_loader \<mapsto> [65, 10, 66])\<rparr>)"
   and b: "\<forall>raw' data' filename'. upper raw' (loader_config example_state) = Inr data' \<longrightarrow>
        get_data (preprocess upper) m_loader filename'
          ((snd (get_data (preprocess upper) m_loader ''/home/m.ppy'' example_state))
             \<lparr>files := (files example_state)(lpath m_loader \<mapsto> raw')\<rparr>)
        = (encode data',
           example_state\<lparr>preprocessed_files := (preprocessed_files example_state)(lpath m_loader \<mapsto> data'),
             files := (files example_state)(lpath m_loader \<mapsto> raw')\<rparr>)"
    by blast+
  from b u' have c: "get_data (preprocess upper) m_loader ''/home/m.ppy''
          ((snd (get_data (preprocess upper) m_loader ''/home/m.ppy'' example_state))
             \<lparr>files := (files example_state)(lpath m_loader \<mapsto> [99])\<rparr>)
        = (encode [67],
           example_state\<lparr>preprocessed_files := (preprocessed_files example_state)(lpath m_loader \<mapsto> [67]),
             files := (files example_state)(lpath m_loader \<mapsto> [99])\<rparr>)"
    by blast
  show ?thesis
    using f u u' a c by (simp add: p utf8_def)
qed

subsection \<open>The exception handler\<close>

lemma drop_outer_dropWhile:
  "mod_file m = FilePath p \<Longrightarrow>
   drop_outer (Some m) tb = Inr (dropWhile (\<lambda>f. co_filename f \<noteq> p) tb)"
  by (induction tb) auto

lemma drop_outer_FileNone: "mod_file m = FileNone \<Longrightarrow> drop_outer (Some m) tb = Inr []"
  by (induction tb) auto

lemma drop_outer_None: "drop_outer None tb = Inr tb"
  by (cases tb) auto




text \<open>
  C6. With an entry module whose file is \<open>p\<close>, the handler drops the entries at the
  front of the traceback whose file is not \<open>p\<close>, stops at the first entry of \<open>p\<close> or
  at the end, and prints the rest: when entries of other files come before the first
  entry of \<open>p\<close>, the printed traceback starts at that entry.
\<close>

theorem handle_exc_trims_traceback:
  "replace_text s e = Inr e' \<and> mod_file m = FilePath p \<longrightarrow>
     handle_exc (Some m) s ty e tb = Inr (ty, e', dropWhile (\<lambda>f. co_filename f \<noteq> p) tb) \<and>
     ((\<forall>f \<in> set inner. co_filename f \<noteq> p) \<and> co_filename entry = p \<and> tb = inner @ entry # rest \<longrightarrow>
        handle_exc (Some m) s ty e tb = Inr (ty, e', entry # rest)) \<and>
     ((\<forall>f \<in> set tb. co_filename f \<noteq> p) \<longrightarrow> handle_exc (Some m) s ty e tb = Inr (ty, e', []))"
  by (auto simp: handle_exc_def drop_outer_dropWhile dropWhile_append3 dropWhile_eq_Nil_conv)


theorem handle_exc_trims_traceback_witness:
  "replace_text example_state (OtherException ''k'') = Inr (OtherException ''k'') \<and>
   mod_file main_module = FilePath ''/home/main.ppy'' \<and>
   handle_exc (Some main_module) example_state ''KeyError'' (OtherException ''k'') example_tb
     = Inr (''KeyError'', OtherException ''k'',
            [\<lparr>co_filename = ''/home/main.ppy'', tb_lineno = 3\<rparr>,
             \<lparr>co_filename = ''/home/m.ppy'', tb_lineno = 1\<rparr>])"
proof -
  have r: "replace_text example_state (OtherException ''k'') = Inr (OtherException ''k'')"
    by (simp add: replace_text_def)
  have f: "mod_file main_module = FilePath ''/home/main.ppy''"
    by (simp add: main_module_def)
  from handle_exc_trims_traceback
         [of example_state "OtherException ''k''" "OtherException ''k''" main_module
             "''/home/main.ppy''" "''KeyError''" example_tb
             "[\<lparr>co_filename = ''/usr/lib/python3/runpy.py'', tb_lineno = 87\<rparr>]"
             "\<lparr>co_filename = ''/home/main.ppy'', tb_lineno = 3\<rparr>"
             "[\<lparr>co_filename = ''/home/m.ppy'', tb_lineno = 1\<rparr>]"] r f
  have "handle_exc (Some main_module) example_state ''KeyError'' (OtherException ''k'') example_tb
     = Inr (''KeyError'', OtherException ''k'',
            [\<lparr>co_filename = ''/home/main.ppy'', tb_lineno = 3\<rparr>,
             \<lparr>co_filename = ''/home/m.ppy'', tb_lineno = 1\<rparr>])"
    by (simp add: example_tb_def)
  with r f show ?thesis by simp
qed

subsection \<open>Cache invalidation\<close>

text \<open>
  C7, as the code has it: \<open>invalidate_caches\<close> removes nothing. In the concrete cache
  the resolver of \<open>/home\<close> is still there afterwards, invalidated, and so is the
  negative entry of \<open>/tmp\<close>.
\<close>

theorem invalidate_caches_entry_stays:
  "path_importer_cache (invalidate_caches cached_state) ''/home''
     = Some (Some (home_finder\<lparr>df_path_mtime := - 1\<rparr>)) \<and>
   path_importer_cache (invalidate_caches cached_state) ''/tmp'' = Some None"
  by (simp add: invalidate_caches_def cached_state_def invalidate_finder_def home_finder_def)

text \<open>
  C7, amended. \<open>invalidate_caches\<close> keeps every key of \<open>_path_importer_cache\<close>,
  invalidates each cached resolver that has \<open>invalidate_caches\<close>, leaves the other
  entries as they are, and changes neither \<open>preprocessed_files\<close> nor the \<open>done\<close> flag.
\<close>

theorem invalidate_caches_keeps_entries:
  "dom (path_importer_cache (invalidate_caches s)) = dom (path_importer_cache s) \<and>
   (path_importer_cache s p = Some (Some f) \<and> df_has_invalidate f \<longrightarrow>
      path_importer_cache (invalidate_caches s) p = Some (Some (f\<lparr>df_path_mtime := - 1\<rparr>))) \<and>
   (path_importer_cache s p = Some (Some f) \<and> \<not> df_has_invalidate f \<longrightarrow>
      path_importer_cache (invalidate_caches s) p = Some (Some f)) \<and>
   (path_importer_cache s p = Some None \<longrightarrow>
      path_importer_cache (invalidate_caches s) p = Some None) \<and>
   preprocessed_files (invalidate_caches s) = preprocessed_files s \<and>
   install_done (invalidate_caches s) = install_done s"
  by (auto simp: invalidate_caches_def invalidate_finder_def dom_def)

theorem invalidate_caches_keeps_entries_witness:
  "path_importer_cache cached_state ''/home'' = Some (Some home_finder) \<and>
   df_has_invalidate home_finder \<and>
   path_importer_cache (invalidate_caches cached_state) ''/home''
     = Some (Some (home_finder\<lparr>df_path_mtime := - 1\<rparr>)) \<and>
   path_importer_cache cached_state ''/tmp'' = Some None \<and>
   path_importer_cache (invalidate_caches cached_state) ''/tmp'' = Some None \<and>
   preprocessed_files (invalidate_caches cached_state) ''/home/m.ppy'' = Some [120, 10, 121, 10]"
proof -
  have a: "path_importer_cache cached_state ''/home'' = Some (Some home_finder)"
          "path_importer_cache cached_state ''/tmp'' = Some None"
          "preprocessed_files cached_state ''/home/m.ppy'' = Some [120, 10, 121, 10]"
    by (simp_all add: cached_state_def example_state_def initial_state_def)
  have b: "df_has_invalidate home_finder" by (simp add: home_finder_def)
  from invalidate_caches_keeps_entries [of cached_state "''/home''" home_finder]
       invalidate_caches_keeps_entries [of cached_state "''/tmp''" home_finder] a b
  show ?thesis by simp
qed

subsection \<open>The resolver cache\<close>

lemma same_resolver_refl [simp]: "same_resolver r r"
  by (simp add: same_resolver_def)

lemma same_resolver_trans: "same_resolver a b \<Longrightarrow> same_resolver b c \<Longrightarrow> same_resolver a c"
  by (simp add: same_resolver_def)

lemma same_resolver_invalidate [simp]: "same_resolver r (invalidate_finder r)"
  by (cases r) (simp_all add: same_resolver_def invalidate_finder_def)

lemma same_resolver_None [simp]: "same_resolver None r \<longleftrightarrow> r = None"
  by (auto simp: same_resolver_def)

lemma kept_refl [simp]: "kept s s"
  by (auto simp: kept_def)

lemma kept_trans: "kept a b \<Longrightarrow> kept b c \<Longrightarrow> kept a c"
  unfolding kept_def by (meson same_resolver_trans)

lemma kept_same_cache:
  "path_importer_cache s' = path_importer_cache s \<Longrightarrow> kept s s'"
  by (auto simp: kept_def)

lemma kept_invalidate_caches: "kept s (invalidate_caches s)"
  by (auto simp: kept_def invalidate_caches_def)

lemma kept_importlib: "kept s (importlib_invalidate_caches fs s)"
proof (induction fs s rule: importlib_invalidate_caches.induct)
  case (2 finders s)
  then show ?case using kept_trans [OF kept_invalidate_caches] by simp
qed simp_all

lemma kept_install: "kept s (install h c s)"
proof -
  have "kept (s\<lparr>loader_config := c, finder_config := c, meta_path := PPyPathFinder # meta_path s,
                 path_hooks := path_hooks s @ [h], sys_path_importer_cache := Map.empty\<rparr>)
             ((importlib_invalidate_caches (PPyPathFinder # meta_path s)
                (s\<lparr>loader_config := c, finder_config := c,
                   meta_path := PPyPathFinder # meta_path s,
                   path_hooks := path_hooks s @ [h], sys_path_importer_cache := Map.empty\<rparr>)))"
    by (rule kept_importlib)
  then show ?thesis
    by (auto simp: install_def Let_def kept_def)
qed

lemma kept_lookup: "kept s (snd (cls_path_importer_cache p s))"
  by (auto simp: cls_path_importer_cache_def kept_def split: sum.splits option.splits)

lemma kept_get_data: "kept s (snd (get_data pp self filename s))"
  by (auto simp: get_data_def kept_def split: sum.splits)

lemma kept_step: "kept s (step pp h ev s)"
  by (cases ev) (simp_all add: kept_install kept_lookup kept_get_data kept_invalidate_caches
       kept_same_cache)

lemma kept_run: "kept s (run pp h evs s)"
proof (induction evs arbitrary: s)
  case (Cons ev evs)
  from kept_trans [OF kept_step Cons.IH] show ?case by simp
qed simp

text \<open>
  C9. A lookup of the empty path asks for the working directory at every call: when
  that fails with \<open>FileNotFoundError\<close> the lookup returns \<open>None\<close> and stores nothing
  (no failure of \<open>getcwd\<close> stores anything), otherwise it is the lookup of the working
  directory. A lookup of a non-empty path that
  returns stores its result under the path, also the \<open>None\<close> it gets when every hook
  declines; a stored result is returned without asking the hooks, and no run of the
  module removes it.
\<close>

theorem path_importer_cache_memoizes:
  "(cwd s = Inl FileNotFoundError \<longrightarrow> cls_path_importer_cache [] s = (Inr None, s)) \<and>
   (cwd s = Inr d \<and> d \<noteq> [] \<longrightarrow> cls_path_importer_cache [] s = cls_path_importer_cache d s) \<and>
   (p \<noteq> [] \<and> cls_path_importer_cache p s = (Inr r, s') \<longrightarrow> path_importer_cache s' p = Some r) \<and>
   (p \<noteq> [] \<and> path_importer_cache s p = None \<and> cls_path_hooks (path_hooks s) p = Inr None \<longrightarrow>
      cls_path_importer_cache p s
        = (Inr None, s\<lparr>path_importer_cache := (path_importer_cache s)(p \<mapsto> None)\<rparr>)) \<and>
   (p \<noteq> [] \<and> path_importer_cache s p = Some r \<longrightarrow> cls_path_importer_cache p s = (Inr r, s)) \<and>
   (path_importer_cache s p = Some r \<longrightarrow>
      (\<exists>r'. path_importer_cache (run pp h evs s) p = Some r' \<and> same_resolver r r')) \<and>
   (cwd s = Inl e \<longrightarrow> snd (cls_path_importer_cache [] s) = s)"
proof (intro conjI impI)
  assume "path_importer_cache s p = Some r"
  with kept_run [of s pp h evs]
  show "\<exists>r'. path_importer_cache (run pp h evs s) p = Some r' \<and> same_resolver r r'"
    by (simp add: kept_def)
qed (auto simp: cls_path_importer_cache_def split: sum.splits option.splits)


theorem path_importer_cache_memoizes_witness:
  "cwd (cached_state\<lparr>cwd := Inl FileNotFoundError\<rparr>) = Inl FileNotFoundError \<and>
   cls_path_importer_cache [] (cached_state\<lparr>cwd := Inl FileNotFoundError\<rparr>)
     = (Inr None, cached_state\<lparr>cwd := Inl FileNotFoundError\<rparr>) \<and>
   cwd cached_state = Inr ''/home'' \<and>
   cls_path_importer_cache [] cached_state = (Inr (Some home_finder), cached_state) \<and>
   path_importer_cache cached_state ''/opt'' = None \<and>
   cls_path_hooks (path_hooks cached_state) ''/opt'' = Inr None \<and>
   cls_path_importer_cache ''/opt'' cached_state
     = (Inr None,
        cached_state\<lparr>path_importer_cache := (path_importer_cache cached_state)(''/opt'' \<mapsto> None)\<rparr>) \<and>
   path_importer_cache cached_state ''/tmp'' = Some None \<and>
   cls_path_importer_cache ''/tmp'' cached_state = (Inr None, cached_state) \<and>
   (\<exists>r'. path_importer_cache
           (run (preprocess upper) home_hook [InvalidateCaches, Chdir (Inl FileNotFoundError)]
              cached_state) ''/home'' = Some r' \<and>
         same_resolver (Some home_finder) r')"
proof -
  let ?lost = "cached_state\<lparr>cwd := Inl FileNotFoundError\<rparr>"
  have c: "cwd ?lost = Inl FileNotFoundError" "cwd cached_state = Inr ''/home''"
          "path_importer_cache cached_state ''/home'' = Some (Some home_finder)"
          "path_importer_cache cached_state ''/opt'' = None"
          "path_importer_cache cached_state ''/tmp'' = Some None"
    by (simp_all add: cached_state_def example_state_def initial_state_def)
  have k: "cls_path_hooks (path_hooks cached_state) ''/opt'' = Inr None"
    by (simp add: cached_state_def home_hook_def)
  note t = path_importer_cache_memoizes
  from t [of ?lost] c(1)
  have 1: "cls_path_importer_cache [] ?lost = (Inr None, ?lost)" by blast
  from t [of cached_state "''/home''" "''/home''" "Some home_finder"] c(2,3)
  have 2: "cls_path_importer_cache [] cached_state = (Inr (Some home_finder), cached_state)"
    by simp
  from t [of cached_state "''/home''" "''/opt''"] c(4) k
  have 3: "cls_path_importer_cache ''/opt'' cached_state
     = (Inr None,
        cached_state\<lparr>path_importer_cache := (path_importer_cache cached_state)(''/opt'' \<mapsto> None)\<rparr>)"
    by simp
  from t [of cached_state "''/home''" "''/tmp''" None] c(5)
  have 4: "cls_path_importer_cache ''/tmp'' cached_state = (Inr None, cached_state)"
    by simp
  from t [of cached_state "''/home''" "''/home''" "Some home_finder" _ "preprocess upper" home_hook
            "[InvalidateCaches, Chdir (Inl FileNotFoundError)]"] c(3)
  have 5: "\<exists>r'. path_importer_cache
           (run (preprocess upper) home_hook [InvalidateCaches, Chdir (Inl FileNotFoundError)]
              cached_state) ''/home'' = Some r' \<and>
         same_resolver (Some home_finder) r'"
    by blast
  from c k 1 2 3 4 5 show ?thesis by blast
qed

subsection \<open>Installation\<close>

lemma invalidate_caches_fields [simp]:
  "meta_path (invalidate_caches s) = meta_path s"
  "path_hooks (invalidate_caches s) = path_hooks s"
  "loader_config (invalidate_caches s) = loader_config s"
  "finder_config (invalidate_caches s) = finder_config s"
  "install_done (invalidate_caches s) = install_done s"
  "preprocessed_files (invalidate_caches s) = preprocessed_files s"
  by (simp_all add: invalidate_caches_def)

lemma importlib_fields [simp]:
  "meta_path (importlib_invalidate_caches fs s) = meta_path s"
  "path_hooks (importlib_invalidate_caches fs s) = path_hooks s"
  "loader_config (importlib_invalidate_caches fs s) = loader_config s"
  "finder_config (importlib_invalidate_caches fs s) = finder_config s"
  "install_done (importlib_invalidate_caches fs s) = install_done s"
  "preprocessed_files (importlib_invalidate_caches fs s) = preprocessed_files s"
  by (induction fs s rule: importlib_invalidate_caches.induct) simp_all

lemma install_first:
  "\<not> install_done s \<Longrightarrow>
   meta_path (install h c s) = PPyPathFinder # meta_path s \<and>
   path_hooks (install h c s) = path_hooks s @ [h] \<and>
   loader_config (install h c s) = c \<and> finder_config (install h c s) = c \<and>
   install_done (install h c s)"
  by (simp add: install_def Let_def)

lemma install_again:
  "install_done s \<Longrightarrow> install h c s = s\<lparr>loader_config := c, finder_config := c\<rparr>"
  by (simp add: install_def Let_def)

lemma install_all_again:
  "install_done s \<Longrightarrow>
   meta_path (install_all h cs s) = meta_path s \<and>
   path_hooks (install_all h cs s) = path_hooks s \<and>
   loader_config (install_all h cs s) = (if cs = [] then loader_config s else last cs) \<and>
   finder_config (install_all h cs s) = (if cs = [] then finder_config s else last cs) \<and>
   install_done (install_all h cs s)"
  by (induction cs arbitrary: s) (simp_all add: install_again)

text \<open>
  C1. From a state where \<open>install\<close> has not run, any non-empty sequence of calls
  \<open>install(cfg_1)\<close>, ..., \<open>install(cfg_N)\<close> puts \<open>PPyPathFinder\<close> once at the front
  of \<open>sys.meta_path\<close> and appends the hook once to \<open>_path_hooks\<close>, whatever \<open>N\<close>
  is, and leaves \<open>cfg_N\<close> as the configuration of both \<open>PPyPathFinder\<close> and
  \<open>PPyLoader\<close>.
\<close>

theorem install_wires_once:
  "cfgs \<noteq> [] \<and> \<not> install_done s \<longrightarrow>
     meta_path (install_all h cfgs s) = PPyPathFinder # meta_path s \<and>
     path_hooks (install_all h cfgs s) = path_hooks s @ [h] \<and>
     loader_config (install_all h cfgs s) = last cfgs \<and>
     finder_config (install_all h cfgs s) = last cfgs \<and>
     install_done (install_all h cfgs s) \<and>
     (PPyPathFinder \<notin> set (meta_path s) \<longrightarrow>
        count_list (meta_path (install_all h cfgs s)) PPyPathFinder = 1) \<and>
     (path_hooks s = [] \<longrightarrow> path_hooks (install_all h cfgs s) = [h])"
proof (intro impI)
  assume a: "cfgs \<noteq> [] \<and> \<not> install_done s"
  then obtain c cs where cfgs: "cfgs = c # cs" by (cases cfgs) auto
  from a have f: "meta_path (install h c s) = PPyPathFinder # meta_path s"
                 "path_hooks (install h c s) = path_hooks s @ [h]"
                 "loader_config (install h c s) = c" "finder_config (install h c s) = c"
                 "install_done (install h c s)"
    using install_first [of s h c] by simp_all
  from install_all_again [OF f(5), of h cs] f cfgs
  show "meta_path (install_all h cfgs s) = PPyPathFinder # meta_path s \<and>
     path_hooks (install_all h cfgs s) = path_hooks s @ [h] \<and>
     loader_config (install_all h cfgs s) = last cfgs \<and>
     finder_config (install_all h cfgs s) = last cfgs \<and>
     install_done (install_all h cfgs s) \<and>
     (PPyPathFinder \<notin> set (meta_path s) \<longrightarrow>
        count_list (meta_path (install_all h cfgs s)) PPyPathFinder = 1) \<and>
     (path_hooks s = [] \<longrightarrow> path_hooks (install_all h cfgs s) = [h])"
    by (auto simp: count_list_0_iff)
qed

theorem install_wires_once_witness:
  "[plain_config, python_first_config] \<noteq> [] \<and> \<not> install_done fresh_state \<and>
   PPyPathFinder \<notin> set (meta_path fresh_state) \<and> path_hooks fresh_state = [] \<and>
   meta_path (install_all home_hook [plain_config, python_first_config] fresh_state)
     = [PPyPathFinder, Foreign builtin_finder, Foreign legacy_finder] \<and>
   count_list (meta_path (install_all home_hook [plain_config, python_first_config] fresh_state))
     PPyPathFinder = 1 \<and>
   path_hooks (install_all home_hook [plain_config, python_first_config] fresh_state)
     = [home_hook] \<and>
   loader_config (install_all home_hook [plain_config, python_first_config] fresh_state)
     = python_first_config \<and>
   finder_config (install_all home_hook [plain_config, python_first_config] fresh_state)
     = python_first_config"
proof -
  have a: "\<not> install_done fresh_state" "PPyPathFinder \<notin> set (meta_path fresh_state)"
          "path_hooks fresh_state = []"
          "meta_path fresh_state = [Foreign builtin_finder, Foreign legacy_finder]"
    by (simp_all add: fresh_state_def initial_state_def)
  from install_wires_once [of "[plain_config, python_first_config]" fresh_state home_hook] a
  show ?thesis by simp
qed

subsection \<open>The keys of the cache of preprocessed files\<close>

lemma dom_step:
  "dom (preprocessed_files (step pp h ev s))
     = dom (preprocessed_files s) \<union> preprocessed_now pp ev s"
proof (cases ev)
  case (Install c)
  then show ?thesis by (simp add: install_def Let_def)
next
  case (GetData self filename)
  then show ?thesis by (auto simp: get_data_def split: sum.splits)
next
  case (PathImporterCache p)
  then show ?thesis
    by (auto simp: cls_path_importer_cache_def split: sum.splits option.splits)
qed (simp_all add: invalidate_caches_def)

lemma dom_run:
  "dom (preprocessed_files (run pp h evs s))
     = dom (preprocessed_files s) \<union> preprocessed_paths pp h evs s"
proof (induction evs arbitrary: s)
  case Nil
  show ?case by simp
next
  case (Cons ev evs)
  show ?case by (simp add: Cons.IH dom_step Un_assoc)
qed

text \<open>
  C8, amended. After any run of the module the keys of \<open>preprocessed_files\<close> are the
  keys it had before and the paths for which a call of \<open>get_data\<close> got a text from the
  preprocessor; from the start of the process they are exactly these paths. Asking for
  the lines of a file adds no key.
\<close>

theorem cache_holds_preprocessed_paths:
  "dom (preprocessed_files (run pp h evs s))
     = dom (preprocessed_files s) \<union> preprocessed_paths pp h evs s \<and>
   dom (preprocessed_files (run pp h evs (initial_state finders spic d fs)))
     = preprocessed_paths pp h evs (initial_state finders spic d fs)"
  by (simp add: dom_run) (simp add: initial_state_def)


text \<open>
  C8, as stated, fails: in a fresh process the lines of \<open>/home/n.ppy\<close> are asked for,
  and the path is no key of \<open>preprocessed_files\<close> afterwards.
\<close>

theorem cache_misses_requested_path:
  "''/home/n.ppy''
     \<in> loaded_paths [GetLines ''/home/n.ppy''] \<union> requested_paths [GetLines ''/home/n.ppy''] \<and>
   ''/home/n.ppy'' \<notin> dom (preprocessed_files
      (run (preprocess upper) home_hook [GetLines ''/home/n.ppy''] fresh_state))"
  by (simp add: fresh_state_def initial_state_def)

theorem cache_holds_preprocessed_paths_witness:
  "dom (preprocessed_files
      (run (preprocess upper) home_hook
         [GetLines ''/home/n.ppy'', GetData m_loader ''/home/m.ppy'',
          GetData \<lparr>fullname = ''n'', lpath = ''/home/n.ppy''\<rparr> ''/home/n.ppy'']
         fresh_state)) = {''/home/m.ppy''}"
proof -
  have "preprocessed_paths (preprocess upper) home_hook
         [GetLines ''/home/n.ppy'', GetData m_loader ''/home/m.ppy'',
          GetData \<lparr>fullname = ''n'', lpath = ''/home/n.ppy''\<rparr> ''/home/n.ppy'']
         fresh_state = {''/home/m.ppy''}"
    by (simp add: fresh_state_def initial_state_def preprocess_def upper_def m_loader_def
          get_data_def)
  moreover have "dom (preprocessed_files fresh_state) = {}"
    by (simp add: fresh_state_def initial_state_def)
  ultimately show ?thesis
    using cache_holds_preprocessed_paths [of "preprocess upper" home_hook
         "[GetLines ''/home/n.ppy'', GetData m_loader ''/home/m.ppy'',
          GetData \<lparr>fullname = ''n'', lpath = ''/home/n.ppy''\<rparr> ''/home/n.ppy'']" fresh_state]
    by simp
qed

subsection \<open>The fallback search\<close>

lemma usable_None [simp]: "\<not> usable None"
  by (simp add: usable_def)

lemma query_finder_stale:
  "\<not> usable spec \<Longrightarrow>
   query_finder sfl f spec n p t = query_finder sfl f None n p t \<or>
   (query_finder sfl f spec n p t = Inr spec \<and> query_finder sfl f None n p t = Inr None)"
  by (auto simp: query_finder_def split: option.splits sum.splits)

lemma fallback_loop_first_usable:
  "\<not> usable spec \<Longrightarrow>
   fallback_loop sfl finders spec n p t
     = first_usable (map (\<lambda>f. query_finder sfl f None n p t) (chain_without_self finders))"
proof (induction finders arbitrary: spec)
  case Nil
  show ?case by simp
next
  case (Cons finder finders)
  show ?case
  proof (cases finder)
    case PPyPathFinder
    with Cons show ?thesis by simp
  next
    case (Foreign f)
    from query_finder_stale [OF Cons.prems, of sfl f n p t]
    show ?thesis
    proof
      assume eq: "query_finder sfl f spec n p t = query_finder sfl f None n p t"
      show ?thesis
      proof (cases "query_finder sfl f None n p t")
        case (Inl e)
        with eq Foreign show ?thesis by simp
      next
        case (Inr r)
        with eq Foreign Cons.IH [of r] show ?thesis by simp
      qed
    next
      assume "query_finder sfl f spec n p t = Inr spec \<and> query_finder sfl f None n p t = Inr None"
      with Foreign Cons.prems Cons.IH [of spec] show ?thesis by simp
    qed
  qed
qed

lemma first_usable_result: "first_usable answers = Inr r \<Longrightarrow> r = None \<or> usable r"
  by (induction answers rule: first_usable.induct) (auto split: if_splits)


lemma first_usable_skip:
  "\<forall>a \<in> set pre. \<exists>r. a = Inr r \<and> \<not> usable r \<Longrightarrow>
   first_usable (pre @ answers) = first_usable answers"
  by (induction pre) auto

text \<open>
  C3. With \<open>prefer_python\<close> set, \<open>find_spec\<close> first runs \<open>find_spec_fallback\<close>. That
  search goes through \<open>sys.meta_path\<close> without \<open>PPyPathFinder\<close>, asks each resolver
  through \<open>find_spec\<close>, and through \<open>find_module\<close> (its loader made into a spec) when
  \<open>find_spec\<close> is missing; only \<open>AttributeError\<close> from the modern interface is
  caught, any other exception ends the search and reaches the caller. The first spec
  with a loader is the result, and \<open>find_spec\<close> returns it without running the
  inherited search.
\<close>

theorem find_spec_prefers_fallback:
  "get_truthy (finder_config s) ''prefer_python'' \<longrightarrow>
     find_spec_fallback sfl s n p t
       = first_usable (map (\<lambda>f. query_finder sfl f None n p t)
           (chain_without_self (meta_path s))) \<and>
     (chain_without_self (meta_path s) = pre @ f # post \<and>
      (\<forall>g \<in> set pre. \<exists>r. query_finder sfl g None n p t = Inr r \<and> \<not> usable r) \<and>
      query_finder sfl f None n p t = Inr (Some spec) \<and> spec_loader spec \<noteq> None \<longrightarrow>
        find_spec_fallback sfl s n p t = Inr (Some spec)) \<and>
     (find_spec_fallback sfl s n p t = Inr (Some spec) \<longrightarrow>
        spec_loader spec \<noteq> None \<and> find_spec sfl super n p t s = (Inr (Some spec), s)) \<and>
     (find_spec_fallback sfl s n p t = Inl e \<longrightarrow> find_spec sfl super n p t s = (Inl e, s)) \<and>
     (find_spec_fallback sfl s n p t = Inr None \<longrightarrow>
        find_spec sfl super n p t s
          = (case super n p t s of
               (Inl e', s') \<Rightarrow> (Inl e', s')
             | (Inr r, s') \<Rightarrow> (Inr (if usable r then r else None), s'))) \<and>
     (ff_find_spec f = Some new \<and> new n p t = Inr r \<longrightarrow>
        query_finder sfl f None n p t = Inr r) \<and>
     (ff_find_spec f = Some new \<and> new n p t = Inl e \<and> e \<noteq> AttributeError \<longrightarrow>
        query_finder sfl f None n p t = Inl e) \<and>
     (ff_find_spec f = None \<and> ff_find_module f = Some old \<and> old n p = Inr (Some ld) \<longrightarrow>
        query_finder sfl f None n p t = sfl n ld) \<and>
     (ff_find_spec f = None \<and> ff_find_module f = Some old \<and> old n p = Inr None \<longrightarrow>
        query_finder sfl f None n p t = Inr None) \<and>
     (ff_find_spec f = None \<and> ff_find_module f = Some old \<and> old n p = Inl e \<longrightarrow>
        query_finder sfl f None n p t = Inl e) \<and>
     (ff_find_spec f = None \<and> ff_find_module f = None \<longrightarrow>
        query_finder sfl f None n p t = Inl AttributeError)"
proof (intro impI)
  assume pref: "get_truthy (finder_config s) ''prefer_python''"
  let ?answer = "\<lambda>f. query_finder sfl f None n p t"
  have chain: "find_spec_fallback sfl s n p t
       = first_usable (map ?answer (chain_without_self (meta_path s)))"
    by (simp add: find_spec_fallback_def fallback_loop_first_usable)
  have first: "find_spec_fallback sfl s n p t = Inr (Some spec)"
    if "chain_without_self (meta_path s) = pre @ f # post \<and>
      (\<forall>g \<in> set pre. \<exists>r. ?answer g = Inr r \<and> \<not> usable r) \<and>
      ?answer f = Inr (Some spec) \<and> spec_loader spec \<noteq> None"
  proof -
    from that have "\<forall>a \<in> set (map ?answer pre). \<exists>r. a = Inr r \<and> \<not> usable r" by auto
    from first_usable_skip [OF this, of "map ?answer (f # post)"] that chain
    show ?thesis by (simp add: usable_def)
  qed
  have found: "spec_loader spec \<noteq> None \<and> find_spec sfl super n p t s = (Inr (Some spec), s)"
    if "find_spec_fallback sfl s n p t = Inr (Some spec)"
  proof -
    from that chain first_usable_result
    have "usable (Some spec)" by fastforce
    with that pref show ?thesis by (simp add: find_spec_def usable_def)
  qed
  have raised: "find_spec sfl super n p t s = (Inl e, s)"
    if "find_spec_fallback sfl s n p t = Inl e"
    using that pref by (simp add: find_spec_def)
  have declined: "find_spec sfl super n p t s
          = (case super n p t s of
               (Inl e', s') \<Rightarrow> (Inl e', s')
             | (Inr r, s') \<Rightarrow> (Inr (if usable r then r else None), s'))"
    if "find_spec_fallback sfl s n p t = Inr None"
    using that pref by (simp add: find_spec_def)
  have q1: "ff_find_spec f = Some new \<and> new n p t = Inr r \<longrightarrow> ?answer f = Inr r"
    by (simp add: query_finder_def)
  have q2: "ff_find_spec f = Some new \<and> new n p t = Inl e \<and> e \<noteq> AttributeError \<longrightarrow>
        ?answer f = Inl e"
    by (simp add: query_finder_def)
  have q3: "ff_find_spec f = None \<and> ff_find_module f = Some old \<and> old n p = Inr (Some ld) \<longrightarrow>
        ?answer f = sfl n ld"
    by (simp add: query_finder_def)
  have q4: "ff_find_spec f = None \<and> ff_find_module f = Some old \<and> old n p = Inr None \<longrightarrow>
        ?answer f = Inr None"
    by (simp add: query_finder_def)
  have q5: "ff_find_spec f = None \<and> ff_find_module f = Some old \<and> old n p = Inl e \<longrightarrow>
        ?answer f = Inl e"
    by (simp add: query_finder_def)
  have q6: "ff_find_spec f = None \<and> ff_find_module f = None \<longrightarrow> ?answer f = Inl AttributeError"
    by (simp add: query_finder_def)
  show "find_spec_fallback sfl s n p t
       = first_usable (map (\<lambda>f. query_finder sfl f None n p t)
           (chain_without_self (meta_path s))) \<and>
     (chain_without_self (meta_path s) = pre @ f # post \<and>
      (\<forall>g \<in> set pre. \<exists>r. query_finder sfl g None n p t = Inr r \<and> \<not> usable r) \<and>
      query_finder sfl f None n p t = Inr (Some spec) \<and> spec_loader spec \<noteq> None \<longrightarrow>
        find_spec_fallback sfl s n p t = Inr (Some spec)) \<and>
     (find_spec_fallback sfl s n p t = Inr (Some spec) \<longrightarrow>
        spec_loader spec \<noteq> None \<and> find_spec sfl super n p t s = (Inr (Some spec), s)) \<and>
     (find_spec_fallback sfl s n p t = Inl e \<longrightarrow> find_spec sfl super n p t s = (Inl e, s)) \<and>
     (find_spec_fallback sfl s n p t = Inr None \<longrightarrow>
        find_spec sfl super n p t s
          = (case super n p t s of
               (Inl e', s') \<Rightarrow> (Inl e', s')
             | (Inr r, s') \<Rightarrow> (Inr (if usable r then r else None), s'))) \<and>
     (ff_find_spec f = Some new \<and> new n p t = Inr r \<longrightarrow>
        query_finder sfl f None n p t = Inr r) \<and>
     (ff_find_spec f = Some new \<and> new n p t = Inl e \<and> e \<noteq> AttributeError \<longrightarrow>
        query_finder sfl f None n p t = Inl e) \<and>
     (ff_find_spec f = None \<and> ff_find_module f = Some old \<and> old n p = Inr (Some ld) \<longrightarrow>
        query_finder sfl f None n p t = sfl n ld) \<and>
     (ff_find_spec f = None \<and> ff_find_module f = Some old \<and> old n p = Inr None \<longrightarrow>
        query_finder sfl f None n p t = Inr None) \<and>
     (ff_find_spec f = None \<and> ff_find_module f = Some old \<and> old n p = Inl e \<longrightarrow>
        query_finder sfl f None n p t = Inl e) \<and>
     (ff_find_spec f = None \<and> ff_find_module f = None \<longrightarrow>
        query_finder sfl f None n p t = Inl AttributeError)"
    apply (intro conjI)
              apply (rule chain)
             apply (rule impI, erule first)
            apply (rule impI, erule found)
           apply (rule impI, erule raised)
          apply (rule impI, erule declined)
         apply (rule q1)
        apply (rule q2)
       apply (rule q3)
      apply (rule q4)
     apply (rule q5)
    apply (rule q6)
    done
qed

theorem find_spec_prefers_fallback_witness:
  "get_truthy (finder_config wired_state) ''prefer_python'' \<and>
   meta_path wired_state = [PPyPathFinder, Foreign builtin_finder, Foreign legacy_finder] \<and>
   find_spec_fallback wrap_loader wired_state ''old'' None None
     = Inr (Some \<lparr>spec_name = ''old'', spec_loader = Some (ForeignLoader ''legacy''),
                  spec_origin = None\<rparr>) \<and>
   find_spec wrap_loader (\<lambda>n p t s. (Inl ImportError, s)) ''old'' None None wired_state
     = (Inr (Some \<lparr>spec_name = ''old'', spec_loader = Some (ForeignLoader ''legacy''),
                   spec_origin = None\<rparr>), wired_state)"
proof -
  let ?spec = "\<lparr>spec_name = ''old'', spec_loader = Some (ForeignLoader ''legacy''),
                spec_origin = None\<rparr>"
  have d: "\<not> install_done fresh_state"
          "meta_path fresh_state = [Foreign builtin_finder, Foreign legacy_finder]"
    by (simp_all add: fresh_state_def initial_state_def)
  from install_first [OF d(1), of home_hook python_first_config] d(2)
  have w: "finder_config wired_state = python_first_config"
          "meta_path wired_state = [PPyPathFinder, Foreign builtin_finder, Foreign legacy_finder]"
    by (simp_all add: wired_state_def)
  have pref: "get_truthy (finder_config wired_state) ''prefer_python''"
    by (simp add: w get_truthy_def python_first_config_def)
  note t = find_spec_prefers_fallback
             [of wired_state wrap_loader "''old''" None None _ _ _ ?spec
                 "\<lambda>n p t s. (Inl ImportError, s)"]
  from t pref
  have "find_spec_fallback wrap_loader wired_state ''old'' None None
       = first_usable (map (\<lambda>f. query_finder wrap_loader f None ''old'' None None)
           (chain_without_self (meta_path wired_state)))"
    by blast
  then have fb: "find_spec_fallback wrap_loader wired_state ''old'' None None = Inr (Some ?spec)"
    by (simp add: w query_finder_def builtin_finder_def legacy_finder_def wrap_loader_def
          usable_def)
  from t pref fb
  have "find_spec wrap_loader (\<lambda>n p t s. (Inl ImportError, s)) ''old'' None None wired_state
     = (Inr (Some ?spec), wired_state)"
    by blast
  with pref w fb show ?thesis by simp
qed

end
